theory Spec2Isabelle
  imports Main
begin

section \<open>The mlflow adapter of tf-yarn (src/tf\_yarn/mlflow.py)\<close>

text \<open>
  The module is a thin adapter around the experiment-tracking library mlflow. Everything
  it does beyond returning a value is made explicit here: the module global
  \<open>_use_mlflow\<close>, the names bound by the import at the top of the module, the log,
  the calls that reach the backend, and the temporary directories and files of the
  text-artifact helper are fields of one state record; everything the module reads from
  outside (the environment variable, whether a library can be imported, which exception a
  backend or filesystem call raises) is a field of a record \<open>world\<close>. A call takes the
  world and the state and returns what Python returns or raises, with the new state: the
  state changes made before an exception is raised stay.
\<close>

subsection \<open>Values, exceptions, log records\<close>

text \<open>Python values that cross the interface of the module.\<close>

datatype pyval = PyNone | PyBool bool | PyInt int | PyStr string

text \<open>
  Exception classes. A constructor stands for the class and its subclasses that are not
  listed here: \<open>ConnectionError\<close> is a subclass of \<open>OSError\<close> in Python, and
  \<open>OSError\<close> below is every other \<open>OSError\<close> (\<open>FileNotFoundError\<close>, ...);
  \<open>ModuleNotFoundError\<close> is a subclass of \<open>ImportError\<close>, and \<open>ImportError\<close> below
  is every other one.
\<close>

datatype exn =
    ConnectionError | MlflowException | ModuleNotFoundError | ImportError
  | NameError | OSError | TypeError

datatype log_level = Info | Warning | Exception

type_synonym log_record = "log_level \<times> string"

subsection \<open>The backend, the world and the process state\<close>

text \<open>The calls the module makes on the mlflow client, with their arguments.\<close>

datatype backend_call =
    Active_run
  | Start_run
  | Get_tracking_uri
  | Set_tag string pyval
  | Set_tags "(string \<times> pyval) list"
  | Log_param string pyval
  | Log_params "(string \<times> pyval) list"
  | Log_metric string pyval "int option"
  | Log_metrics "(string \<times> pyval) list" "int option"
  | Log_artifact string "string option"
  | Log_artifacts string "string option"

record world =
  getenv_TF_YARN_USE_MLFLOW :: "string option"
    \<comment> \<open>the environment variable, \<open>None\<close> when unset\<close>
  import_mlflow :: "exn option"
    \<comment> \<open>what importing mlflow and its submodules raises, \<open>None\<close> when it succeeds\<close>
  is_tracking_uri_set :: bool
    \<comment> \<open>the answer of \<open>mlflow.tracking.utils.is_tracking_uri_set()\<close>\<close>
  import_pyarrow :: "exn option"
  backend_fault :: "backend_call \<Rightarrow> exn option"
    \<comment> \<open>the exception a backend call raises, \<open>None\<close> when it completes\<close>
  new_run_id :: string
    \<comment> \<open>the identifier of the run that \<open>mlflow.start_run()\<close> creates\<close>
  tracking_uri :: string
  mkdtemp :: "exn + string"
    \<comment> \<open>\<open>tempfile.TemporaryDirectory()\<close>: the directory it creates, or what it raises\<close>
  open_fault :: "string \<Rightarrow> exn option"
    \<comment> \<open>what \<open>open(path, 'w')\<close> raises\<close>
  write_fault :: "exn option"
    \<comment> \<open>what \<open>f.write(content)\<close> raises\<close>

record state =
  use_mlflow_var :: "bool option"
    \<comment> \<open>the module global \<open>_use_mlflow\<close>\<close>
  mlflow_imported :: bool
    \<comment> \<open>the import at the top of the module bound the names \<open>mlflow\<close> and \<open>exceptions\<close>\<close>
  logged :: "log_record list"
  active_run :: "string option"
    \<comment> \<open>the backend's active run, by its identifier\<close>
  backend_calls :: "backend_call list"
    \<comment> \<open>every call that reached the backend client, oldest first\<close>
  dirs :: "string list"
    \<comment> \<open>the temporary directories that exist\<close>
  files :: "(string \<times> string) list"
    \<comment> \<open>the files written: path and content\<close>

type_synonym 'a result = "(exn + 'a) \<times> state"

definition logger :: "log_level \<Rightarrow> string \<Rightarrow> state \<Rightarrow> state" where
  "logger lvl msg s = s\<lparr>logged := logged s @ [(lvl, msg)]\<rparr>"

definition os_getenv :: "string option \<Rightarrow> string \<Rightarrow> string" where
  "os_getenv var dflt = (case var of None \<Rightarrow> dflt | Some v \<Rightarrow> v)"

text \<open>
  Lines 10 to 16: the import at the top of the module is tried once, an
  \<open>ImportError\<close> is passed over, and \<open>_use_mlflow\<close> starts as \<open>None\<close>.
\<close>

definition load_module :: "world \<Rightarrow> state \<Rightarrow> exn + state" where
  "load_module w s =
     (case import_mlflow w of
        None \<Rightarrow> Inr (s\<lparr>use_mlflow_var := None, mlflow_imported := True\<rparr>)
      | Some e \<Rightarrow>
          if e = ModuleNotFoundError \<or> e = ImportError
          then Inr (s\<lparr>use_mlflow_var := None, mlflow_imported := False\<rparr>)
          else Inl e)"

text \<open>
  A call on the mlflow client. The name \<open>mlflow\<close> is looked up first: where the import
  at the top of the module failed it is unbound and the call raises \<open>NameError\<close>
  before it reaches the backend. Otherwise the call reaches the backend, which raises or
  completes.
\<close>

definition backend_enter :: "world \<Rightarrow> backend_call \<Rightarrow> state \<Rightarrow> exn option \<times> state" where
  "backend_enter w c s =
     (if \<not> mlflow_imported s then (Some NameError, s)
      else (backend_fault w c, s\<lparr>backend_calls := backend_calls s @ [c]\<rparr>))"

definition mlflow_active_run :: "world \<Rightarrow> state \<Rightarrow> (string option) result" where
  "mlflow_active_run w s =
     (case backend_enter w Active_run s of
        (Some e, s') \<Rightarrow> (Inl e, s')
      | (None, s') \<Rightarrow> (Inr (active_run s'), s'))"

definition mlflow_start_run :: "world \<Rightarrow> state \<Rightarrow> string result" where
  "mlflow_start_run w s =
     (case backend_enter w Start_run s of
        (Some e, s') \<Rightarrow> (Inl e, s')
      | (None, s') \<Rightarrow> (Inr (new_run_id w), s'\<lparr>active_run := Some (new_run_id w)\<rparr>))"

definition mlflow_get_tracking_uri :: "world \<Rightarrow> state \<Rightarrow> string result" where
  "mlflow_get_tracking_uri w s =
     (case backend_enter w Get_tracking_uri s of
        (Some e, s') \<Rightarrow> (Inl e, s')
      | (None, s') \<Rightarrow> (Inr (tracking_uri w), s'))"

text \<open>
  The logging calls of the client: they return \<open>None\<close>. Of the backend they record
  the call and leave the active run as it is; that the client starts a run of its own when
  it logs with none active is not part of this model, and no statement below is about the
  active run after such a call.
\<close>

definition mlflow_call :: "world \<Rightarrow> backend_call \<Rightarrow> state \<Rightarrow> pyval result" where
  "mlflow_call w c s =
     (case backend_enter w c s of
        (Some e, s') \<Rightarrow> (Inl e, s')
      | (None, s') \<Rightarrow> (Inr PyNone, s'))"

subsection \<open>The feature gate\<close>

definition detect_mlflow :: "world \<Rightarrow> state \<Rightarrow> bool result" where
  "detect_mlflow w s =
     (if os_getenv (getenv_TF_YARN_USE_MLFLOW w) [] = ''False'' then (Inr False, s)
      else
        case import_mlflow w of
          Some e \<Rightarrow>
            if e = ModuleNotFoundError \<or> e = ImportError
            then (Inr False, logger Exception ''mlflow is not installed'' s)
            else (Inl e, s)
        | None \<Rightarrow>
            if \<not> is_tracking_uri_set w
            then (Inr False,
                  logger Warning ''mlflow tracking uri is not set. will not use mlflow'' s)
            else (Inr True, s))"

definition use_mlflow :: "world \<Rightarrow> state \<Rightarrow> bool result" where
  "use_mlflow w s =
     (case use_mlflow_var s of
        None \<Rightarrow>
          (case detect_mlflow w s of
             (Inl e, s') \<Rightarrow> (Inl e, s')
           | (Inr b, s') \<Rightarrow> (Inr b, s'\<lparr>use_mlflow_var := Some b\<rparr>))
      | Some b \<Rightarrow> (Inr b, s))"

definition is_pyarrow_installed :: "world \<Rightarrow> exn + bool" where
  "is_pyarrow_installed w =
     (case import_pyarrow w of
        None \<Rightarrow> Inr True
      | Some e \<Rightarrow> if e = ModuleNotFoundError then Inr False else Inl e)"

subsection \<open>The decorators\<close>

text \<open>
  The handler \<open>except (ConnectionError, exceptions.MlflowException)\<close> of both wrappers.
  Python evaluates the tuple when an exception reaches the handler: where the name
  \<open>exceptions\<close> is unbound that raises \<open>NameError\<close>, which takes the place of the
  exception being handled.
\<close>

definition except_mlflow :: "exn \<Rightarrow> state \<Rightarrow> pyval result" where
  "except_mlflow e s =
     (if \<not> mlflow_imported s then (Inl NameError, s)
      else if e = ConnectionError \<or> e = MlflowException
      then (Inr PyNone, logger Exception ''mlflow connection error'' s)
      else (Inl e, s))"

definition safe_mlflow :: "(state \<Rightarrow> pyval result) \<Rightarrow> state \<Rightarrow> pyval result" where
  "safe_mlflow f s =
     (case f s of
        (Inr v, s') \<Rightarrow> (Inr v, s')
      | (Inl e, s') \<Rightarrow> except_mlflow e s')"

definition optional_mlflow :: "(state \<Rightarrow> pyval result) \<Rightarrow> world \<Rightarrow> state \<Rightarrow> pyval result" where
  "optional_mlflow f w s =
     (case use_mlflow w s of
        (Inl e, s') \<Rightarrow> (Inl e, s')
      | (Inr b, s') \<Rightarrow>
          if b then
            (case f s' of
               (Inr v, s'') \<Rightarrow> (Inr v, s'')
             | (Inl e, s'') \<Rightarrow> except_mlflow e s'')
          else (Inr PyNone, s'))"

subsection \<open>The forwarding functions\<close>

definition active_run_id_body :: "world \<Rightarrow> state \<Rightarrow> pyval result" where
  "active_run_id_body w s =
     (case use_mlflow w s of
        (Inl e, s1) \<Rightarrow> (Inl e, s1)
      | (Inr b, s1) \<Rightarrow>
          if b then
            (case mlflow_active_run w s1 of
               (Inl e, s2) \<Rightarrow> (Inl e, s2)
             | (Inr (Some r), s2) \<Rightarrow> (Inr (PyStr r), s2)
             | (Inr None, s2) \<Rightarrow>
                 (case mlflow_start_run w
                         (logger Warning
                            ''there is no active mlflow run. starting a new run ..'' s2) of
                    (Inl e, s3) \<Rightarrow> (Inl e, s3)
                  | (Inr r, s3) \<Rightarrow> (Inr (PyStr r), s3)))
          else (Inr (PyStr []), s1))"

definition active_run_id :: "world \<Rightarrow> state \<Rightarrow> pyval result" where
  "active_run_id w = safe_mlflow (active_run_id_body w)"

definition get_tracking_uri :: "world \<Rightarrow> state \<Rightarrow> pyval result" where
  "get_tracking_uri w s =
     (case use_mlflow w s of
        (Inl e, s1) \<Rightarrow> (Inl e, s1)
      | (Inr b, s1) \<Rightarrow>
          if b then
            (case mlflow_get_tracking_uri w s1 of
               (Inl e, s2) \<Rightarrow> (Inl e, s2)
             | (Inr u, s2) \<Rightarrow> (Inr (PyStr u), s2))
          else (Inr (PyStr []), s1))"

definition set_tag :: "string \<Rightarrow> pyval \<Rightarrow> world \<Rightarrow> state \<Rightarrow> pyval result" where
  "set_tag key val w = optional_mlflow (mlflow_call w (Set_tag key val)) w"

definition set_tags :: "(string \<times> pyval) list \<Rightarrow> world \<Rightarrow> state \<Rightarrow> pyval result" where
  "set_tags tags w = optional_mlflow (mlflow_call w (Set_tags tags)) w"

definition log_param :: "string \<Rightarrow> pyval \<Rightarrow> world \<Rightarrow> state \<Rightarrow> pyval result" where
  "log_param key val w = optional_mlflow (mlflow_call w (Log_param key val)) w"

definition log_params :: "(string \<times> pyval) list \<Rightarrow> world \<Rightarrow> state \<Rightarrow> pyval result" where
  "log_params params w = optional_mlflow (mlflow_call w (Log_params params)) w"

definition log_metric :: "string \<Rightarrow> pyval \<Rightarrow> int option \<Rightarrow> world \<Rightarrow> state \<Rightarrow> pyval result" where
  "log_metric key val step w = optional_mlflow (mlflow_call w (Log_metric key val step)) w"

definition log_metrics ::
  "(string \<times> pyval) list \<Rightarrow> int option \<Rightarrow> world \<Rightarrow> state \<Rightarrow> pyval result" where
  "log_metrics metrics step w = optional_mlflow (mlflow_call w (Log_metrics metrics step)) w"

definition log_artifact :: "string \<Rightarrow> string option \<Rightarrow> world \<Rightarrow> state \<Rightarrow> pyval result" where
  "log_artifact local_path artifact_path w =
     optional_mlflow (mlflow_call w (Log_artifact local_path artifact_path)) w"

definition log_artifacts :: "string \<Rightarrow> string option \<Rightarrow> world \<Rightarrow> state \<Rightarrow> pyval result" where
  "log_artifacts local_dir artifact_path w =
     optional_mlflow (mlflow_call w (Log_artifacts local_dir artifact_path)) w"

subsection \<open>The key sanitizer\<close>

text \<open>
  \<open>str.replace(old, new)\<close> where \<open>old\<close> and \<open>new\<close> are one character each, as in both
  calls of \<open>format_key\<close>. A Python string is modelled by its UTF-8 bytes; the three
  characters involved are ASCII, and no byte of a longer UTF-8 sequence equals one.
\<close>

fun str_replace1 :: "char \<Rightarrow> char \<Rightarrow> string \<Rightarrow> string" where
  "str_replace1 old new [] = []"
| "str_replace1 old new (c # cs) =
     (if c = old then new else c) # str_replace1 old new cs"

text \<open>The argument is a string or \<open>None\<close>; both \<open>None\<close> and the empty string are falsy.\<close>

definition format_key :: "string option \<Rightarrow> string" where
  "format_key key =
     (case key of
        None \<Rightarrow> []
      | Some k \<Rightarrow>
          if k \<noteq> [] then str_replace1 (CHR ''/'') (CHR ''_'') (str_replace1 (CHR '':'') (CHR ''_'') k)
          else [])"

text \<open>The sanitizer in the words of the specification, to compare with \<open>format_key\<close>.\<close>

definition spec_format_key :: "string option \<Rightarrow> string" where
  "spec_format_key key =
     (case key of
        None \<Rightarrow> []
      | Some k \<Rightarrow> map (\<lambda>c. if c = CHR '':'' \<or> c = CHR ''/'' then CHR ''_'' else c) k)"

subsection \<open>The artifact text helper\<close>

definition os_path_join :: "string \<Rightarrow> string \<Rightarrow> string" where
  "os_path_join a b =
     (if b \<noteq> [] \<and> hd b = CHR ''/'' then b
      else if a = [] \<or> last a = CHR ''/'' then a @ b
      else a @ ''/'' @ b)"

text \<open>
  A path is under a directory when it starts with the directory and a separator. Paths
  are compared as written: a \<open>..\<close> in a file name is not resolved.
\<close>

definition under_dir :: "string \<Rightarrow> string \<Rightarrow> bool" where
  "under_dir d p = (take (length d + 1) p = d @ ''/'')"

text \<open>
  Leaving the \<open>with tempfile.TemporaryDirectory()\<close> block, by its end or by an
  exception, removes the directory and everything under it.
\<close>

definition cleanup :: "string \<Rightarrow> state \<Rightarrow> state" where
  "cleanup d s =
     s\<lparr>dirs := removeAll d (dirs s),
       files := filter (\<lambda>(p, c). \<not> under_dir d p) (files s)\<rparr>"

text \<open>
  \<open>with open(path, 'w') as f: f.write(content)\<close>: opening creates or truncates the file;
  the file is closed on both ways out of the block.
\<close>

definition write_text :: "world \<Rightarrow> string \<Rightarrow> string \<Rightarrow> state \<Rightarrow> unit result" where
  "write_text w path content s =
     (case open_fault w path of
        Some e \<Rightarrow> (Inl e, s)
      | None \<Rightarrow>
          (case write_fault w of
             Some e \<Rightarrow> (Inl e, s\<lparr>files := (path, []) # filter (\<lambda>(p, c). p \<noteq> path) (files s)\<rparr>)
           | None \<Rightarrow>
               (Inr (), s\<lparr>files := (path, content) # filter (\<lambda>(p, c). p \<noteq> path) (files s)\<rparr>)))"

definition save_text_to_mlflow_body :: "world \<Rightarrow> string \<Rightarrow> string \<Rightarrow> state \<Rightarrow> pyval result" where
  "save_text_to_mlflow_body w content filename s =
     (case use_mlflow w s of
        (Inl e, s1) \<Rightarrow> (Inl e, s1)
      | (Inr b, s1) \<Rightarrow>
          if \<not> b then (Inr PyNone, s1)
          else
            (case is_pyarrow_installed w of
               Inl e \<Rightarrow> (Inl e, s1)
             | Inr False \<Rightarrow>
                 (Inr PyNone,
                  logger Warning
                    (''Pyarrow is not installed. '' @ filename
                       @ '' artifact won't be stored on HDFS'') s1)
             | Inr True \<Rightarrow>
                 (let s2 = logger Info (''save file '' @ filename @ '' to mlflow'') s1 in
                  case mkdtemp w of
                    Inl e \<Rightarrow> (Inl e, s2)
                  | Inr tempdir \<Rightarrow>
                      (let s3 = s2\<lparr>dirs := tempdir # dirs s2\<rparr>;
                           path = os_path_join tempdir filename;
                           (r, s5) =
                             (case write_text w path content s3 of
                                (Inl e, s4) \<Rightarrow> (Inl e, s4)
                              | (Inr u, s4) \<Rightarrow> mlflow_call w (Log_artifact path None) s4)
                       in (r, cleanup tempdir s5)))))"

definition save_text_to_mlflow :: "world \<Rightarrow> string \<Rightarrow> string \<Rightarrow> state \<Rightarrow> pyval result" where
  "save_text_to_mlflow w content filename =
     safe_mlflow (save_text_to_mlflow_body w content filename)"

subsection \<open>Client programs\<close>

text \<open>
  The public functions of the module as one type of calls, so that a statement can range
  over all of them and over the programs that call them one after the other, each call in
  the world of its moment.
\<close>

datatype api_call =
    Call_use_mlflow
  | Call_active_run_id
  | Call_get_tracking_uri
  | Call_set_tag string pyval
  | Call_set_tags "(string \<times> pyval) list"
  | Call_log_param string pyval
  | Call_log_params "(string \<times> pyval) list"
  | Call_log_metric string pyval "int option"
  | Call_log_metrics "(string \<times> pyval) list" "int option"
  | Call_log_artifact string "string option"
  | Call_log_artifacts string "string option"
  | Call_format_key "string option"
  | Call_save_text_to_mlflow string string

fun call_api :: "world \<Rightarrow> api_call \<Rightarrow> state \<Rightarrow> pyval result" where
  "call_api w Call_use_mlflow s =
     (case use_mlflow w s of (Inl e, s') \<Rightarrow> (Inl e, s') | (Inr b, s') \<Rightarrow> (Inr (PyBool b), s'))"
| "call_api w Call_active_run_id s = active_run_id w s"
| "call_api w Call_get_tracking_uri s = get_tracking_uri w s"
| "call_api w (Call_set_tag k v) s = set_tag k v w s"
| "call_api w (Call_set_tags t) s = set_tags t w s"
| "call_api w (Call_log_param k v) s = log_param k v w s"
| "call_api w (Call_log_params p) s = log_params p w s"
| "call_api w (Call_log_metric k v st) s = log_metric k v st w s"
| "call_api w (Call_log_metrics m st) s = log_metrics m st w s"
| "call_api w (Call_log_artifact p a) s = log_artifact p a w s"
| "call_api w (Call_log_artifacts d a) s = log_artifacts d a w s"
| "call_api w (Call_format_key k) s = (Inr (PyStr (format_key k)), s)"
| "call_api w (Call_save_text_to_mlflow c f) s = save_text_to_mlflow w c f s"

fun is_wrapped :: "api_call \<Rightarrow> bool" where
  "is_wrapped Call_use_mlflow = False"
| "is_wrapped Call_get_tracking_uri = False"
| "is_wrapped (Call_format_key k) = False"
| "is_wrapped c = True"

fun run_calls :: "(world \<times> api_call) list \<Rightarrow> state \<Rightarrow> (exn + pyval) list \<times> state" where
  "run_calls [] s = ([], s)"
| "run_calls ((w, c) # prog) s =
     (case call_api w c s of
        (r, s') \<Rightarrow> (case run_calls prog s' of (rs, s'') \<Rightarrow> (r # rs, s'')))"

subsection \<open>Sample worlds and states\<close>

text \<open>
  \<open>world_ok\<close> has mlflow and pyarrow installed, a tracking endpoint configured and no
  failing call; the other worlds change one field of it. \<open>state_fresh\<close> is the module
  right after a successful import, before the first call of the gate.
\<close>

definition world_ok :: world where
  "world_ok =
     \<lparr>getenv_TF_YARN_USE_MLFLOW = None, import_mlflow = None, is_tracking_uri_set = True,
      import_pyarrow = None, backend_fault = (\<lambda>c. None), new_run_id = ''run-1'',
      tracking_uri = ''http://tracking:5000'', mkdtemp = Inr ''/tmp/tmpq1'',
      open_fault = (\<lambda>p. None), write_fault = None\<rparr>"

definition state_fresh :: state where
  "state_fresh =
     \<lparr>use_mlflow_var = None, mlflow_imported = True, logged = [], active_run = None,
      backend_calls = [], dirs = [], files = []\<rparr>"
definition world_conn_error :: world where
  "world_conn_error = world_ok\<lparr>backend_fault := (\<lambda>c. Some ConnectionError)\<rparr>"

definition world_env_False :: world where
  "world_env_False = world_ok\<lparr>getenv_TF_YARN_USE_MLFLOW := Some ''False''\<rparr>"

definition world_no_pyarrow :: world where
  "world_no_pyarrow = world_ok\<lparr>import_pyarrow := Some ModuleNotFoundError\<rparr>"

definition world_open_fails :: world where
  "world_open_fails = world_ok\<lparr>open_fault := (\<lambda>p. Some OSError)\<rparr>"

definition state_enabled :: state where
  "state_enabled = state_fresh\<lparr>use_mlflow_var := Some True\<rparr>"

definition state_disabled :: state where
  "state_disabled = state_fresh\<lparr>use_mlflow_var := Some False\<rparr>"

definition world_env_True :: world where
  "world_env_True = world_ok\<lparr>getenv_TF_YARN_USE_MLFLOW := Some ''True''\<rparr>"

definition state_running :: state where
  "state_running = state_enabled\<lparr>active_run := Some ''run-0''\<rparr>"

definition world_no_mlflow :: world where
  "world_no_mlflow = world_env_True\<lparr>import_mlflow := Some ModuleNotFoundError\<rparr>"

section \<open>Unfolding and frame lemmas\<close>

lemmas fixture_defs =
  world_ok_def state_fresh_def world_conn_error_def world_env_False_def world_no_pyarrow_def
  world_open_fails_def state_enabled_def state_disabled_def world_env_True_def
  state_running_def world_no_mlflow_def

lemmas model_defs =
  use_mlflow_def detect_mlflow_def os_getenv_def logger_def backend_enter_def
  mlflow_active_run_def mlflow_start_run_def mlflow_get_tracking_uri_def mlflow_call_def
  is_pyarrow_installed_def except_mlflow_def safe_mlflow_def optional_mlflow_def
  active_run_id_body_def active_run_id_def get_tracking_uri_def set_tag_def set_tags_def
  log_param_def log_params_def log_metric_def log_metrics_def log_artifact_def
  log_artifacts_def os_path_join_def under_dir_def cleanup_def write_text_def
  save_text_to_mlflow_body_def save_text_to_mlflow_def

text \<open>What loading the module leaves: no decision, and the names bound or not.\<close>

lemma load_module_flags:
  "load_module w s0 = Inr s \<Longrightarrow>
     use_mlflow_var s = None \<and> mlflow_imported s = (import_mlflow w = None)"
  by (auto simp: load_module_def split: option.splits if_splits)

text \<open>The gate touches nothing but \<open>_use_mlflow\<close> and the log.\<close>

lemma use_mlflow_frame:
  "use_mlflow w s = (r, s') \<Longrightarrow>
     mlflow_imported s' = mlflow_imported s \<and> active_run s' = active_run s
     \<and> backend_calls s' = backend_calls s \<and> dirs s' = dirs s \<and> files s' = files s"
  by (auto simp: use_mlflow_def detect_mlflow_def logger_def
           split: option.splits if_splits sum.splits prod.splits)

lemma use_mlflow_Some: "use_mlflow_var s = Some b \<Longrightarrow> use_mlflow w s = (Inr b, s)"
  by (simp add: use_mlflow_def)

lemma use_mlflow_sets_var: "use_mlflow w s = (Inr b, s') \<Longrightarrow> use_mlflow_var s' = Some b"
  by (auto simp: use_mlflow_def split: option.splits sum.splits prod.splits)

lemma logger_var [simp]: "use_mlflow_var (logger l m s) = use_mlflow_var s"
  and logger_imported [simp]: "mlflow_imported (logger l m s) = mlflow_imported s"
  by (simp_all add: logger_def)

lemma cleanup_var [simp]: "use_mlflow_var (cleanup d s) = use_mlflow_var s"
  by (simp add: cleanup_def)

lemma mlflow_call_var: "use_mlflow_var (snd (mlflow_call w c s)) = use_mlflow_var s"
  by (simp add: mlflow_call_def backend_enter_def split: option.splits)

lemma mlflow_call_imported: "mlflow_imported (snd (mlflow_call w c s)) = mlflow_imported s"
  by (simp add: mlflow_call_def backend_enter_def split: option.splits)

lemma mlflow_call_dirs: "dirs (snd (mlflow_call w c s)) = dirs s"
  by (simp add: mlflow_call_def backend_enter_def split: option.splits)

lemma write_text_dirs: "dirs (snd (write_text w p c s)) = dirs s"
  by (simp add: write_text_def split: option.splits)

lemma except_mlflow_var: "use_mlflow_var (snd (except_mlflow e s)) = use_mlflow_var s"
  by (simp add: except_mlflow_def)

lemma except_mlflow_fs:
  "dirs (snd (except_mlflow e s)) = dirs s" "files (snd (except_mlflow e s)) = files s"
  by (simp_all add: except_mlflow_def logger_def)

lemma safe_mlflow_fs:
  "dirs (snd (safe_mlflow f s)) = dirs (snd (f s))"
  "files (snd (safe_mlflow f s)) = files (snd (f s))"
  by (cases "f s"; cases "fst (f s)"; simp add: safe_mlflow_def except_mlflow_fs)+

section \<open>The key sanitizer is the specified substitution\<close>


lemma str_replace1_map: "str_replace1 old new s = map (\<lambda>c. if c = old then new else c) s"
  by (induction s) simp_all

text \<open>
  Claim C6. For every string key, \<open>format_key\<close> returns the key with every \<open>:\<close> and
  every \<open>/\<close> replaced by \<open>_\<close> and every other character unchanged, in the original
  order and at the original length; for \<open>None\<close> and for the empty string it returns the
  empty string. The function is a function of its argument only: it reads and changes no
  state.
\<close>

theorem format_key_spec:
  "format_key key = spec_format_key key
   \<and> format_key None = []
   \<and> format_key (Some []) = []
   \<and> format_key (Some k) = map (\<lambda>c. if c = CHR '':'' \<or> c = CHR ''/'' then CHR ''_'' else c) k
   \<and> length (format_key (Some k)) = length k"
proof -
  have m: "format_key (Some k) = map (\<lambda>c. if c = CHR '':'' \<or> c = CHR ''/'' then CHR ''_'' else c) k"
    for k
    by (simp add: format_key_def str_replace1_map)
  have "format_key key = spec_format_key key"
    by (cases key) (simp_all add: m spec_format_key_def, simp add: format_key_def)
  moreover have "format_key None = []" "format_key (Some []) = []"
    by (simp_all add: format_key_def)
  ultimately show ?thesis
    using m [of k] by simp
qed

section \<open>The feature gate\<close>

text \<open>
  Claim C4. If the environment variable \<open>TF_YARN_USE_MLFLOW\<close> is the literal string
  \<open>False\<close>, detection answers false without looking at anything else, whatever the
  import of the backend library would do and whether or not a tracking endpoint is
  configured, and so does \<open>use_mlflow()\<close> when it runs detection, that is on its first
  call in the process. With any other value of the variable, unset included, the gate
  defers to auto-detection: on that call \<open>use_mlflow()\<close> returns what
  \<open>_detect_mlflow()\<close> returns, which is what both return with the variable unset:
  the answer of \<open>is_tracking_uri_set()\<close> where the library can be imported, false
  where importing it raises \<open>ModuleNotFoundError\<close> or \<open>ImportError\<close>.
\<close>

theorem env_False_disables:
  "(getenv_TF_YARN_USE_MLFLOW w = Some ''False'' \<longrightarrow> detect_mlflow w s = (Inr False, s))
   \<and> (getenv_TF_YARN_USE_MLFLOW w = Some ''False'' \<and> use_mlflow_var s = None \<longrightarrow>
        use_mlflow w s = (Inr False, s\<lparr>use_mlflow_var := Some False\<rparr>))
   \<and> (getenv_TF_YARN_USE_MLFLOW w \<noteq> Some ''False'' \<longrightarrow>
        detect_mlflow w s = detect_mlflow (w\<lparr>getenv_TF_YARN_USE_MLFLOW := None\<rparr>) s)
   \<and> (getenv_TF_YARN_USE_MLFLOW w \<noteq> Some ''False'' \<and> import_mlflow w = None \<longrightarrow>
        fst (detect_mlflow w s) = Inr (is_tracking_uri_set w))
   \<and> (use_mlflow_var s = None \<longrightarrow> fst (use_mlflow w s) = fst (detect_mlflow w s))
   \<and> (use_mlflow_var s = None \<and> getenv_TF_YARN_USE_MLFLOW w \<noteq> Some ''False'' \<longrightarrow>
        use_mlflow w s = use_mlflow (w\<lparr>getenv_TF_YARN_USE_MLFLOW := None\<rparr>) s)
   \<and> (use_mlflow_var s = None \<and> getenv_TF_YARN_USE_MLFLOW w \<noteq> Some ''False''
        \<and> import_mlflow w = None \<longrightarrow>
        fst (use_mlflow w s) = Inr (is_tracking_uri_set w))
   \<and> (use_mlflow_var s = None \<and> getenv_TF_YARN_USE_MLFLOW w \<noteq> Some ''False''
        \<and> (import_mlflow w = Some ModuleNotFoundError \<or> import_mlflow w = Some ImportError) \<longrightarrow>
        fst (use_mlflow w s) = Inr False)"
proof -
  have d1: "getenv_TF_YARN_USE_MLFLOW w = Some ''False'' \<longrightarrow> detect_mlflow w s = (Inr False, s)"
    by (simp add: detect_mlflow_def os_getenv_def)
  have d3: "getenv_TF_YARN_USE_MLFLOW w \<noteq> Some ''False'' \<longrightarrow>
        detect_mlflow w s = detect_mlflow (w\<lparr>getenv_TF_YARN_USE_MLFLOW := None\<rparr>) s"
    by (auto simp: detect_mlflow_def os_getenv_def split: option.splits)
  have d4: "getenv_TF_YARN_USE_MLFLOW w \<noteq> Some ''False'' \<and> import_mlflow w = None \<longrightarrow>
        fst (detect_mlflow w s) = Inr (is_tracking_uri_set w)"
    by (auto simp: detect_mlflow_def os_getenv_def split: option.splits)
  have d5: "getenv_TF_YARN_USE_MLFLOW w \<noteq> Some ''False''
        \<and> (import_mlflow w = Some ModuleNotFoundError \<or> import_mlflow w = Some ImportError) \<longrightarrow>
        fst (detect_mlflow w s) = Inr False"
    by (auto simp: detect_mlflow_def os_getenv_def split: option.splits)
  have u: "use_mlflow_var s = None \<longrightarrow> fst (use_mlflow w s) = fst (detect_mlflow w s)"
    by (simp add: use_mlflow_def split: prod.splits sum.splits)
  have u2: "getenv_TF_YARN_USE_MLFLOW w = Some ''False'' \<and> use_mlflow_var s = None \<longrightarrow>
        use_mlflow w s = (Inr False, s\<lparr>use_mlflow_var := Some False\<rparr>)"
    using d1 by (simp add: use_mlflow_def)
  have u3: "use_mlflow_var s = None \<and> getenv_TF_YARN_USE_MLFLOW w \<noteq> Some ''False'' \<longrightarrow>
        use_mlflow w s = use_mlflow (w\<lparr>getenv_TF_YARN_USE_MLFLOW := None\<rparr>) s"
    using d3 by (simp add: use_mlflow_def)
  have u4: "use_mlflow_var s = None \<and> getenv_TF_YARN_USE_MLFLOW w \<noteq> Some ''False''
        \<and> import_mlflow w = None \<longrightarrow>
        fst (use_mlflow w s) = Inr (is_tracking_uri_set w)"
    using u d4 by simp
  have u5: "use_mlflow_var s = None \<and> getenv_TF_YARN_USE_MLFLOW w \<noteq> Some ''False''
        \<and> (import_mlflow w = Some ModuleNotFoundError \<or> import_mlflow w = Some ImportError) \<longrightarrow>
        fst (use_mlflow w s) = Inr False"
    using u d5 by simp
  show ?thesis
    by (intro conjI) (rule d1 u2 d3 d4 u u3 u4 u5)+
qed

text \<open>
  With mlflow importable and an endpoint configured, the variable set to \<open>False\<close>
  disables tracking on the first call; set to \<open>True\<close> it leaves the gate to find
  tracking enabled, and disabled where mlflow is not installed.
\<close>

theorem env_False_disables_witness:
  "getenv_TF_YARN_USE_MLFLOW world_env_False = Some ''False''
   \<and> use_mlflow_var state_fresh = None
   \<and> import_mlflow world_env_False = None \<and> is_tracking_uri_set world_env_False
   \<and> use_mlflow world_env_False state_fresh = (Inr False, state_disabled)
   \<and> getenv_TF_YARN_USE_MLFLOW world_env_True \<noteq> Some ''False''
   \<and> import_mlflow world_env_True = None
   \<and> detect_mlflow world_env_True state_fresh = (Inr True, state_fresh)
   \<and> use_mlflow world_env_True state_fresh = (Inr True, state_enabled)
   \<and> getenv_TF_YARN_USE_MLFLOW world_no_mlflow \<noteq> Some ''False''
   \<and> import_mlflow world_no_mlflow = Some ModuleNotFoundError
   \<and> use_mlflow world_no_mlflow state_fresh
       = (Inr False,
          state_disabled\<lparr>logged := [(Exception, ''mlflow is not installed'')]\<rparr>)"
  using env_False_disables [of world_env_False state_fresh]
        env_False_disables [of world_env_True state_fresh]
        env_False_disables [of world_no_mlflow state_fresh]
  by (simp add: fixture_defs model_defs)

subsection \<open>The decision is taken once\<close>

lemma safe_mlflow_var:
  assumes "\<And>t. use_mlflow_var t = Some b \<Longrightarrow> use_mlflow_var (snd (f t)) = Some b"
    and "use_mlflow_var s = Some b"
  shows "use_mlflow_var (snd (safe_mlflow f s)) = Some b"
proof (cases "f s")
  case (Pair r s')
  with assms(1) [OF assms(2)] have "use_mlflow_var s' = Some b" by simp
  with Pair show ?thesis
    by (cases r) (simp_all add: safe_mlflow_def except_mlflow_var)
qed

lemma optional_mlflow_var:
  assumes "\<And>t. use_mlflow_var t = Some b \<Longrightarrow> use_mlflow_var (snd (f t)) = Some b"
    and "use_mlflow_var s = Some b"
  shows "use_mlflow_var (snd (optional_mlflow f w s)) = Some b"
proof (cases "f s")
  case (Pair r s')
  with assms(1) [OF assms(2)] have "use_mlflow_var s' = Some b" by simp
  with Pair assms(2) show ?thesis
    by (cases r) (simp_all add: optional_mlflow_def use_mlflow_Some except_mlflow_var)
qed

lemma active_run_id_body_var:
  "use_mlflow_var s = Some b \<Longrightarrow> use_mlflow_var (snd (active_run_id_body w s)) = Some b"
  by (auto simp: active_run_id_body_def use_mlflow_Some mlflow_active_run_def
        mlflow_start_run_def backend_enter_def split: option.splits)

lemma save_text_body_var:
  "use_mlflow_var s = Some b \<Longrightarrow>
     use_mlflow_var (snd (save_text_to_mlflow_body w c f s)) = Some b"
  apply (simp add: save_text_to_mlflow_body_def use_mlflow_Some Let_def
        split: sum.splits bool.splits prod.splits)
  apply (auto simp: write_text_def mlflow_call_def backend_enter_def
         split: option.splits if_splits)
  done

text \<open>No public function of the module changes a decision that has been taken.\<close>

lemma call_api_var:
  "use_mlflow_var s = Some b \<Longrightarrow> use_mlflow_var (snd (call_api w c s)) = Some b"
proof (cases c)
  case Call_use_mlflow
  assume "use_mlflow_var s = Some b"
  with Call_use_mlflow show ?thesis by (simp add: use_mlflow_Some)
next
  case Call_active_run_id
  assume "use_mlflow_var s = Some b"
  with Call_active_run_id show ?thesis
    by (simp add: active_run_id_def safe_mlflow_var active_run_id_body_var)
next
  case Call_get_tracking_uri
  assume "use_mlflow_var s = Some b"
  with Call_get_tracking_uri show ?thesis
    by (simp add: get_tracking_uri_def use_mlflow_Some mlflow_get_tracking_uri_def
          backend_enter_def split: option.splits)
next
  case (Call_save_text_to_mlflow x y)
  assume "use_mlflow_var s = Some b"
  with Call_save_text_to_mlflow show ?thesis
    by (simp add: save_text_to_mlflow_def safe_mlflow_var save_text_body_var)
qed (simp_all add: set_tag_def set_tags_def log_param_def log_params_def log_metric_def
       log_metrics_def log_artifact_def log_artifacts_def optional_mlflow_var mlflow_call_var)

lemma run_calls_flag:
  "use_mlflow_var s = Some b \<Longrightarrow> run_calls prog s = (rs, s'') \<Longrightarrow>
     length rs = length prog
     \<and> (\<forall>i < length prog. snd (prog ! i) = Call_use_mlflow \<longrightarrow> rs ! i = Inr (PyBool b))
     \<and> use_mlflow_var s'' = Some b"
proof (induction prog arbitrary: s rs s'')
  case Nil
  then show ?case by simp
next
  case (Cons wc prog)
  obtain w c where wc: "wc = (w, c)" by (cases wc)
  obtain r s1 where step: "call_api w c s = (r, s1)" by (cases "call_api w c s")
  obtain rs1 t where rest: "run_calls prog s1 = (rs1, t)" by (cases "run_calls prog s1")
  from Cons.prems(2) wc step rest have rs: "rs = r # rs1" and t: "t = s''" by simp_all
  from call_api_var [OF Cons.prems(1), of w c] step have v1: "use_mlflow_var s1 = Some b"
    by simp
  note ih = Cons.IH [OF v1 rest]
  have hd: "c = Call_use_mlflow \<Longrightarrow> r = Inr (PyBool b)"
    using step Cons.prems(1) by (simp add: use_mlflow_Some)
  show ?case
  proof (intro conjI allI impI)
    show "length rs = length (wc # prog)" using ih rs by simp
  next
    fix i assume i: "i < length (wc # prog)" and u: "snd ((wc # prog) ! i) = Call_use_mlflow"
    show "rs ! i = Inr (PyBool b)"
    proof (cases i)
      case 0
      with u wc hd rs show ?thesis by simp
    next
      case (Suc j)
      with i u ih rs show ?thesis by simp
    qed
  next
    show "use_mlflow_var s'' = Some b" using ih t by simp
  qed
qed

text \<open>
  Claim C5. The flag of the feature gate is computed at most once per process. Once a
  call of \<open>use_mlflow()\<close> has returned a boolean \<open>b\<close>, the flag holds \<open>b\<close>; a further
  call returns \<open>b\<close> in any world whatever (another value of the environment variable,
  other libraries installed, another backend configuration) and leaves the state as it
  is, so nothing of detection runs, not even its log lines; and in every program of calls
  of the module's public functions that follows, each in a world of its own, every call
  of \<open>use_mlflow()\<close> returns \<open>b\<close>.
\<close>

theorem use_mlflow_computed_once:
  assumes "use_mlflow w s = (Inr b, s')"
  shows "use_mlflow_var s' = Some b
       \<and> use_mlflow w' s' = (Inr b, s')
       \<and> (run_calls prog s' = (rs, s'') \<longrightarrow>
            (\<forall>i < length prog. snd (prog ! i) = Call_use_mlflow \<longrightarrow> rs ! i = Inr (PyBool b))
            \<and> use_mlflow_var s'' = Some b)"
proof -
  have v: "use_mlflow_var s' = Some b" by (rule use_mlflow_sets_var [OF assms])
  then have "use_mlflow w' s' = (Inr b, s')" by (rule use_mlflow_Some)
  with v run_calls_flag [OF v, of prog rs s''] show ?thesis by blast
qed

text \<open>
  Tracking is found enabled on the first call; afterwards the environment variable is set
  to \<open>False\<close>, and the gate still answers true, also after a call of \<open>set_tag\<close>.
\<close>

theorem use_mlflow_computed_once_witness:
  "use_mlflow world_ok state_fresh = (Inr True, state_enabled)
   \<and> use_mlflow world_env_False state_enabled = (Inr True, state_enabled)
   \<and> run_calls [(world_env_False, Call_set_tag ''k'' (PyInt 3)),
                 (world_env_False, Call_use_mlflow)] state_enabled
       = ([Inr PyNone, Inr (PyBool True)],
          state_enabled\<lparr>backend_calls := [Set_tag ''k'' (PyInt 3)]\<rparr>)"
  using use_mlflow_computed_once
          [of world_ok state_fresh True state_enabled world_env_False
              "[(world_env_False, Call_set_tag ''k'' (PyInt 3)), (world_env_False, Call_use_mlflow)]"
              "[Inr PyNone, Inr (PyBool True)]"
              "state_enabled\<lparr>backend_calls := [Set_tag ''k'' (PyInt 3)]\<rparr>"]
  by (simp add: fixture_defs model_defs)

section \<open>The decorators\<close>

text \<open>
  Claim C2. For every function wrapped by \<open>safe_mlflow\<close> or by \<open>optional_mlflow\<close>
  (with the gate reporting tracking enabled, so that the function is called at all): if
  the wrapped call raises a \<open>ConnectionError\<close> or an \<open>MlflowException\<close>, the wrapper
  returns \<open>None\<close>, appends the line "mlflow connection error" to the log at exception
  level and raises nothing. The state \<open>s'\<close> is the one the wrapped call leaves behind;
  the module's import of mlflow has succeeded in it, which is what gives the name
  \<open>exceptions.MlflowException\<close> of the handler a meaning.
\<close>

theorem wrappers_catch_backend_errors:
  assumes "e = ConnectionError \<or> e = MlflowException" and "mlflow_imported s'"
  shows "(f s = (Inl e, s') \<longrightarrow>
            safe_mlflow f s = (Inr PyNone, logger Exception ''mlflow connection error'' s'))
       \<and> (use_mlflow w s = (Inr True, s1) \<and> f s1 = (Inl e, s') \<longrightarrow>
            optional_mlflow f w s = (Inr PyNone, logger Exception ''mlflow connection error'' s'))
       \<and> logged (logger Exception ''mlflow connection error'' s')
           = logged s' @ [(Exception, ''mlflow connection error'')]"
  using assms by (auto simp: safe_mlflow_def optional_mlflow_def except_mlflow_def logger_def)

text \<open>
  The backend refuses the connection on \<open>set_tag\<close>: the call reaches the backend, the
  wrapper returns \<open>None\<close> and the log has the line.
\<close>

theorem wrappers_catch_backend_errors_witness:
  "mlflow_call world_conn_error (Set_tag ''k'' (PyInt 3)) state_enabled
     = (Inl ConnectionError, state_enabled\<lparr>backend_calls := [Set_tag ''k'' (PyInt 3)]\<rparr>)
   \<and> mlflow_imported (state_enabled\<lparr>backend_calls := [Set_tag ''k'' (PyInt 3)]\<rparr>)
   \<and> use_mlflow world_conn_error state_enabled = (Inr True, state_enabled)
   \<and> safe_mlflow (mlflow_call world_conn_error (Set_tag ''k'' (PyInt 3))) state_enabled
       = (Inr PyNone,
          state_enabled\<lparr>backend_calls := [Set_tag ''k'' (PyInt 3)],
                         logged := [(Exception, ''mlflow connection error'')]\<rparr>)
   \<and> set_tag ''k'' (PyInt 3) world_conn_error state_enabled
       = (Inr PyNone,
          state_enabled\<lparr>backend_calls := [Set_tag ''k'' (PyInt 3)],
                         logged := [(Exception, ''mlflow connection error'')]\<rparr>)"
  using wrappers_catch_backend_errors
          [of ConnectionError "state_enabled\<lparr>backend_calls := [Set_tag ''k'' (PyInt 3)]\<rparr>"
              "mlflow_call world_conn_error (Set_tag ''k'' (PyInt 3))" state_enabled
              world_conn_error state_enabled]
  by (simp add: fixture_defs model_defs)

text \<open>
  Claim C3. Whenever the feature gate reports tracking disabled, a function wrapped by
  \<open>optional_mlflow\<close> is not called: each of \<open>set_tag\<close>, \<open>set_tags\<close>,
  \<open>log_param\<close>, \<open>log_params\<close>, \<open>log_metric\<close>, \<open>log_metrics\<close>,
  \<open>log_artifact\<close> and \<open>log_artifacts\<close> returns \<open>None\<close> in the state the gate left,
  in which the list of calls that reached the backend and the backend's active run are
  what they were before.
\<close>

theorem optional_disabled_no_backend_call:
  assumes "use_mlflow w s = (Inr False, s1)"
  shows "optional_mlflow f w s = (Inr PyNone, s1)
       \<and> set_tag key val w s = (Inr PyNone, s1)
       \<and> set_tags tags w s = (Inr PyNone, s1)
       \<and> log_param key val w s = (Inr PyNone, s1)
       \<and> log_params params w s = (Inr PyNone, s1)
       \<and> log_metric key val step w s = (Inr PyNone, s1)
       \<and> log_metrics metrics step w s = (Inr PyNone, s1)
       \<and> log_artifact local_path artifact_path w s = (Inr PyNone, s1)
       \<and> log_artifacts local_dir artifact_path w s = (Inr PyNone, s1)
       \<and> backend_calls s1 = backend_calls s
       \<and> active_run s1 = active_run s"
proof -
  have o: "optional_mlflow g w s = (Inr PyNone, s1)" for g
    using assms by (simp add: optional_mlflow_def)
  from use_mlflow_frame [OF assms] o show ?thesis
    by (simp add: set_tag_def set_tags_def log_param_def log_params_def log_metric_def
          log_metrics_def log_artifact_def log_artifacts_def)
qed

theorem optional_disabled_no_backend_call_witness:
  "use_mlflow world_env_False state_fresh = (Inr False, state_disabled)
   \<and> set_tag ''k'' (PyInt 3) world_env_False state_fresh = (Inr PyNone, state_disabled)
   \<and> log_artifact ''model.pb'' None world_env_False state_fresh = (Inr PyNone, state_disabled)
   \<and> backend_calls state_disabled = []"
  using optional_disabled_no_backend_call
          [of world_env_False state_fresh state_disabled undefined "''k''" "PyInt 3" "[]" "[]"
              None "[]" "''model.pb''" None "''d''"]
  by (simp add: fixture_defs model_defs)

section \<open>The identifier of the active run\<close>

text \<open>
  Claim C7. With tracking disabled \<open>active_run_id()\<close> returns the empty string. With
  tracking enabled and the backend answering its calls, it returns the identifier of the
  backend's active run when there is one, after the one backend call \<open>active_run()\<close>;
  when there is none it logs the warning, starts a run through \<open>start_run()\<close> and
  returns the identifier of that run, which is the active run from then on. (What it
  returns when a backend call raises is the subject of claim C10.)
\<close>

theorem active_run_id_returns_run:
  assumes "use_mlflow w s = (Inr b, s1)"
  shows "(\<not> b \<longrightarrow> active_run_id w s = (Inr (PyStr []), s1))
       \<and> (b \<and> mlflow_imported s \<and> backend_fault w Active_run = None \<and> active_run s = Some r \<longrightarrow>
            active_run_id w s
              = (Inr (PyStr r), s1\<lparr>backend_calls := backend_calls s1 @ [Active_run]\<rparr>))
       \<and> (b \<and> mlflow_imported s \<and> backend_fault w Active_run = None
            \<and> backend_fault w Start_run = None \<and> active_run s = None \<longrightarrow>
            fst (active_run_id w s) = Inr (PyStr (new_run_id w))
            \<and> active_run (snd (active_run_id w s)) = Some (new_run_id w)
            \<and> logged (snd (active_run_id w s))
                = logged s1 @ [(Warning, ''there is no active mlflow run. starting a new run ..'')]
            \<and> backend_calls (snd (active_run_id w s)) = backend_calls s @ [Active_run, Start_run])"
  using assms use_mlflow_frame [OF assms]
  by (auto simp: active_run_id_def safe_mlflow_def active_run_id_body_def mlflow_active_run_def
        mlflow_start_run_def backend_enter_def logger_def)

text \<open>The three cases: a run is active, none is active, tracking is disabled.\<close>

theorem active_run_id_returns_run_witness:
  "use_mlflow world_ok state_running = (Inr True, state_running)
   \<and> active_run state_running = Some ''run-0''
   \<and> active_run_id world_ok state_running
       = (Inr (PyStr ''run-0''), state_running\<lparr>backend_calls := [Active_run]\<rparr>)
   \<and> use_mlflow world_ok state_enabled = (Inr True, state_enabled)
   \<and> active_run state_enabled = None
   \<and> active_run_id world_ok state_enabled
       = (Inr (PyStr ''run-1''),
          state_enabled\<lparr>backend_calls := [Active_run, Start_run],
                         active_run := Some ''run-1'',
                         logged := [(Warning,
                                     ''there is no active mlflow run. starting a new run ..'')]\<rparr>)
   \<and> use_mlflow world_ok state_disabled = (Inr False, state_disabled)
   \<and> active_run_id world_ok state_disabled = (Inr (PyStr []), state_disabled)"
  using active_run_id_returns_run [of world_ok state_running True state_running "''run-0''"]
        active_run_id_returns_run [of world_ok state_enabled True state_enabled]
        active_run_id_returns_run [of world_ok state_disabled False state_disabled]
  by (simp add: fixture_defs model_defs)

text \<open>
  Claim C10. \<open>active_run_id\<close> is annotated to return a string, but with tracking enabled,
  when the backend raises a \<open>ConnectionError\<close> or an \<open>MlflowException\<close> (on
  \<open>active_run()\<close>, or on \<open>start_run()\<close> when no run is active), the wrapper
  \<open>safe_mlflow\<close> makes it return \<open>None\<close>, which is not the empty string. The empty
  string of the source is returned on the path of disabled tracking; a string returned
  with tracking enabled is the identifier of the backend's active run.
\<close>

theorem active_run_id_None_on_backend_error:
  assumes "use_mlflow w s = (Inr b, s1)" and "mlflow_imported s"
    and "e = ConnectionError \<or> e = MlflowException"
  shows "(b \<and> backend_fault w Active_run = Some e \<longrightarrow> fst (active_run_id w s) = Inr PyNone)
       \<and> (b \<and> backend_fault w Active_run = None \<and> active_run s = None
            \<and> backend_fault w Start_run = Some e \<longrightarrow> fst (active_run_id w s) = Inr PyNone)
       \<and> PyNone \<noteq> PyStr []
       \<and> (b \<and> fst (active_run_id w s) = Inr (PyStr r) \<longrightarrow>
            active_run (snd (active_run_id w s)) = Some r)
       \<and> (\<not> b \<longrightarrow> fst (active_run_id w s) = Inr (PyStr []))"
  using assms use_mlflow_frame [OF assms(1)]
  by (auto simp: active_run_id_def safe_mlflow_def active_run_id_body_def mlflow_active_run_def
        mlflow_start_run_def backend_enter_def logger_def except_mlflow_def
        split: option.splits if_splits)

theorem active_run_id_None_on_backend_error_witness:
  "use_mlflow world_conn_error state_enabled = (Inr True, state_enabled)
   \<and> mlflow_imported state_enabled
   \<and> backend_fault world_conn_error Active_run = Some ConnectionError
   \<and> active_run_id world_conn_error state_enabled
       = (Inr PyNone,
          state_enabled\<lparr>backend_calls := [Active_run],
                         logged := [(Exception, ''mlflow connection error'')]\<rparr>)"
  using active_run_id_None_on_backend_error
          [of world_conn_error state_enabled True state_enabled ConnectionError]
  by (simp add: fixture_defs model_defs)

section \<open>The artifact text helper\<close>

lemma cleanup_dirs: "d \<notin> set (dirs (cleanup d s))"
  and cleanup_files: "\<forall>(p, c) \<in> set (files (cleanup d s)). \<not> under_dir d p"
  by (auto simp: cleanup_def)

text \<open>
  Once the temporary directory exists, every way out of the body goes through
  \<open>cleanup\<close>, from a state that still has the directory.
\<close>

lemma save_text_body_upload:
  assumes "use_mlflow w s = (Inr True, s1)" and "import_pyarrow w = None"
    and "mkdtemp w = Inr d"
  shows "\<exists>r t. dirs t = d # dirs s
           \<and> save_text_to_mlflow_body w content filename s = (r, cleanup d t)"
proof -
  let ?s2 = "logger Info (''save file '' @ filename @ '' to mlflow'') s1"
  let ?s3 = "?s2\<lparr>dirs := d # dirs ?s2\<rparr>"
  let ?path = "os_path_join d filename"
  let ?inner = "case write_text w ?path content ?s3 of
                  (Inl e, s4) \<Rightarrow> (Inl e, s4)
                | (Inr u, s4) \<Rightarrow> mlflow_call w (Log_artifact ?path None) s4"
  have d1: "dirs s1 = dirs s" using use_mlflow_frame [OF assms(1)] by simp
  have body: "save_text_to_mlflow_body w content filename s = (fst ?inner, cleanup d (snd ?inner))"
    using assms
    by (simp add: save_text_to_mlflow_body_def is_pyarrow_installed_def Let_def
          split: prod.splits)
  obtain q s4 where wt: "write_text w ?path content ?s3 = (q, s4)"
    by (cases "write_text w ?path content ?s3")
  from write_text_dirs [of w ?path content ?s3] wt have d4: "dirs s4 = d # dirs s"
    by (simp add: logger_def d1)
  have "dirs (snd ?inner) = d # dirs s"
  proof (cases q)
    case (Inl e)
    with wt d4 show ?thesis by simp
  next
    case (Inr u)
    with wt d4 mlflow_call_dirs [of w "Log_artifact ?path None" s4] show ?thesis by simp
  qed
  with body show ?thesis by blast
qed

text \<open>
  Claim C8. On every call of \<open>save_text_to_mlflow\<close> that reaches the upload stage
  (tracking enabled, pyarrow importable), the temporary directory \<open>d\<close> created for the
  write is gone when the call is over, whatever the outcome: a return after the upload, a
  return after a caught backend exception, or an exception of the filesystem that
  propagates. No file under \<open>d\<close> is left either, and the other temporary directories
  are untouched. Where the directory cannot even be created, the directories are as
  before.
\<close>

theorem tempdir_removed_on_every_exit:
  assumes "use_mlflow w s = (Inr True, s1)" and "import_pyarrow w = None"
  shows "(mkdtemp w = Inr d \<longrightarrow>
            d \<notin> set (dirs (snd (save_text_to_mlflow w content filename s)))
            \<and> (\<forall>(p, c) \<in> set (files (snd (save_text_to_mlflow w content filename s))).
                  \<not> under_dir d p)
            \<and> dirs (snd (save_text_to_mlflow w content filename s)) = removeAll d (dirs s))
       \<and> (mkdtemp w = Inl e \<longrightarrow>
            dirs (snd (save_text_to_mlflow w content filename s)) = dirs s)"
proof (intro conjI impI)
  assume m: "mkdtemp w = Inr d"
  from save_text_body_upload [OF assms m, of content filename] obtain r t
    where t: "dirs t = d # dirs s"
      and b: "save_text_to_mlflow_body w content filename s = (r, cleanup d t)"
    by blast
  have fs: "dirs (snd (save_text_to_mlflow w content filename s)) = dirs (cleanup d t)"
    "files (snd (save_text_to_mlflow w content filename s)) = files (cleanup d t)"
    using b by (simp_all add: save_text_to_mlflow_def safe_mlflow_fs)
  show "d \<notin> set (dirs (snd (save_text_to_mlflow w content filename s)))"
    using fs cleanup_dirs by simp
  show "\<forall>(p, c) \<in> set (files (snd (save_text_to_mlflow w content filename s))). \<not> under_dir d p"
    using fs cleanup_files [of d t] by simp
  show "dirs (snd (save_text_to_mlflow w content filename s)) = removeAll d (dirs s)"
    using fs t by (simp add: cleanup_def)
next
  assume m: "mkdtemp w = Inl e"
  have "dirs s1 = dirs s" using use_mlflow_frame [OF assms(1)] by simp
  then show "dirs (snd (save_text_to_mlflow w content filename s)) = dirs s"
    using assms m
    by (simp add: save_text_to_mlflow_def safe_mlflow_fs save_text_to_mlflow_body_def
          is_pyarrow_installed_def logger_def)
qed

text \<open>
  The three ways out: the upload succeeds; the backend refuses the connection and the
  wrapper returns \<open>None\<close>; opening the file fails and \<open>OSError\<close> propagates. No
  directory is left in any of them.
\<close>

theorem tempdir_removed_on_every_exit_witness:
  "use_mlflow world_ok state_enabled = (Inr True, state_enabled)
   \<and> import_pyarrow world_ok = None \<and> mkdtemp world_ok = Inr ''/tmp/tmpq1''
   \<and> save_text_to_mlflow world_ok ''hello'' ''out.txt'' state_enabled
       = (Inr PyNone,
          state_enabled\<lparr>logged := [(Info, ''save file out.txt to mlflow'')],
                         backend_calls := [Log_artifact ''/tmp/tmpq1/out.txt'' None]\<rparr>)
   \<and> fst (save_text_to_mlflow world_conn_error ''hello'' ''out.txt'' state_enabled) = Inr PyNone
   \<and> dirs (snd (save_text_to_mlflow world_conn_error ''hello'' ''out.txt'' state_enabled)) = []
   \<and> fst (save_text_to_mlflow world_open_fails ''hello'' ''sub/out.txt'' state_enabled)
       = Inl OSError
   \<and> dirs (snd (save_text_to_mlflow world_open_fails ''hello'' ''sub/out.txt'' state_enabled)) = []"
  using tempdir_removed_on_every_exit
          [of world_ok state_enabled state_enabled "''/tmp/tmpq1''" "''hello''" "''out.txt''"]
        tempdir_removed_on_every_exit
          [of world_conn_error state_enabled state_enabled "''/tmp/tmpq1''" "''hello''"
              "''out.txt''"]
        tempdir_removed_on_every_exit
          [of world_open_fails state_enabled state_enabled "''/tmp/tmpq1''" "''hello''"
              "''sub/out.txt''"]
  by (simp add: fixture_defs model_defs)

text \<open>
  Claim C9, as stated, fails: with pyarrow not installed and tracking disabled,
  \<open>save_text_to_mlflow\<close> returns at its first test, before it looks for pyarrow, and
  logs nothing.
\<close>

theorem save_text_without_pyarrow_counterexample:
  "import_pyarrow world_no_pyarrow = Some ModuleNotFoundError
   \<and> save_text_to_mlflow world_no_pyarrow ''hello'' ''out.txt'' state_disabled
       = (Inr PyNone, state_disabled)
   \<and> logged state_disabled = []"
  by (simp add: fixture_defs model_defs)

text \<open>
  Claim C9, amended. When \<open>save_text_to_mlflow\<close> is called, pyarrow is not installed
  and the feature gate gives its decision, the function returns \<open>None\<close> without
  raising, for every content and filename; it writes no file, creates no directory and
  makes no call on the backend. With tracking enabled it logs the warning that names the
  file; with tracking disabled it logs nothing of its own.
\<close>

theorem save_text_without_pyarrow:
  assumes "import_pyarrow w = Some ModuleNotFoundError" and "use_mlflow w s = (Inr b, s1)"
  shows "save_text_to_mlflow w content filename s
           = (Inr PyNone,
              if b then logger Warning
                          (''Pyarrow is not installed. '' @ filename
                             @ '' artifact won't be stored on HDFS'') s1
              else s1)
       \<and> files (snd (save_text_to_mlflow w content filename s)) = files s
       \<and> dirs (snd (save_text_to_mlflow w content filename s)) = dirs s
       \<and> backend_calls (snd (save_text_to_mlflow w content filename s)) = backend_calls s"
  using assms use_mlflow_frame [OF assms(2)]
  by (simp add: save_text_to_mlflow_def safe_mlflow_def save_text_to_mlflow_body_def
        is_pyarrow_installed_def logger_def)

theorem save_text_without_pyarrow_witness:
  "import_pyarrow world_no_pyarrow = Some ModuleNotFoundError
   \<and> use_mlflow world_no_pyarrow state_enabled = (Inr True, state_enabled)
   \<and> save_text_to_mlflow world_no_pyarrow ''hello'' ''out.txt'' state_enabled
       = (Inr PyNone,
          state_enabled\<lparr>logged :=
            [(Warning, ''Pyarrow is not installed. out.txt artifact won't be stored on HDFS'')]\<rparr>)"
  using save_text_without_pyarrow
          [of world_no_pyarrow state_enabled True state_enabled "''hello''" "''out.txt''"]
  by (simp add: fixture_defs model_defs)

section \<open>Which exceptions reach the caller\<close>

lemma active_run_id_body_imported:
  "mlflow_imported (snd (active_run_id_body w s)) = mlflow_imported s"
proof -
  obtain r s1 where u: "use_mlflow w s = (r, s1)" by (cases "use_mlflow w s")
  from use_mlflow_frame [OF u] have "mlflow_imported s1 = mlflow_imported s" by simp
  with u show ?thesis
    by (auto simp: active_run_id_body_def mlflow_active_run_def mlflow_start_run_def
          backend_enter_def logger_def split: sum.splits option.splits)
qed

lemma save_text_body_imported:
  "mlflow_imported (snd (save_text_to_mlflow_body w c f s)) = mlflow_imported s"
proof -
  obtain r s1 where u: "use_mlflow w s = (r, s1)" by (cases "use_mlflow w s")
  from use_mlflow_frame [OF u] have i: "mlflow_imported s1 = mlflow_imported s" by simp
  show ?thesis
    using u i
    apply (simp add: save_text_to_mlflow_body_def Let_def
          split: sum.splits bool.splits prod.splits)
    apply (auto simp: write_text_def mlflow_call_def backend_enter_def cleanup_def logger_def
           split: option.splits if_splits)
    done
qed

lemma except_mlflow_no_backend_error:
  "mlflow_imported s \<Longrightarrow>
     fst (except_mlflow e s) \<noteq> Inl ConnectionError \<and> fst (except_mlflow e s) \<noteq> Inl MlflowException"
  by (simp add: except_mlflow_def)

lemma safe_mlflow_no_backend_error:
  assumes "mlflow_imported (snd (f s))"
  shows "fst (safe_mlflow f s) \<noteq> Inl ConnectionError
       \<and> fst (safe_mlflow f s) \<noteq> Inl MlflowException"
proof (cases "f s")
  case (Pair r s')
  with assms have "mlflow_imported s'" by simp
  with Pair show ?thesis
    by (cases r) (simp_all add: safe_mlflow_def except_mlflow_no_backend_error)
qed

lemma optional_mlflow_no_backend_error:
  assumes "mlflow_imported s" and "\<And>t. mlflow_imported (snd (f t)) = mlflow_imported t"
    and "fst (use_mlflow w s) \<noteq> Inl ConnectionError"
    and "fst (use_mlflow w s) \<noteq> Inl MlflowException"
  shows "fst (optional_mlflow f w s) \<noteq> Inl ConnectionError
       \<and> fst (optional_mlflow f w s) \<noteq> Inl MlflowException"
proof -
  obtain g s1 where u: "use_mlflow w s = (g, s1)" by (cases "use_mlflow w s")
  from use_mlflow_frame [OF u] assms(1) have i1: "mlflow_imported s1" by simp
  show ?thesis
  proof (cases g)
    case (Inl e)
    with u assms(3,4) show ?thesis by (simp add: optional_mlflow_def)
  next
    case (Inr b)
    obtain r s2 where fr: "f s1 = (r, s2)" by (cases "f s1")
    from assms(2) [of s1] fr i1 have "mlflow_imported s2" by simp
    with u Inr fr show ?thesis
      by (cases r) (simp_all add: optional_mlflow_def except_mlflow_no_backend_error)
  qed
qed

text \<open>
  Claim C1, as stated, fails. The handlers of both wrappers name two exception classes
  only. In \<open>save_text_to_mlflow\<close> an \<open>OSError\<close> of the filesystem (opening
  \<open>sub/out.txt\<close> in a fresh temporary directory, which has no subdirectory \<open>sub\<close>)
  reaches the caller; and \<open>get_tracking_uri\<close> is not wrapped at all, so that even a
  \<open>ConnectionError\<close> of the backend reaches the caller.
\<close>

theorem exceptions_propagate_counterexample:
  "fst (save_text_to_mlflow world_open_fails ''hello'' ''sub/out.txt'' state_fresh) = Inl OSError
   \<and> fst (get_tracking_uri world_conn_error state_fresh) = Inl ConnectionError"
  by (simp add: fixture_defs model_defs)

text \<open>
  Claim C1, amended. From the ten public functions that are wrapped by \<open>safe_mlflow\<close>
  or \<open>optional_mlflow\<close> (\<open>active_run_id\<close>, \<open>save_text_to_mlflow\<close> and the eight
  forwarding functions), called in a module whose import of mlflow succeeded and with a
  feature gate that does not itself raise one, no \<open>ConnectionError\<close> and no
  \<open>MlflowException\<close> ever reaches the caller, for every input and whatever the backend
  and the filesystem do. An exception of any other class that the wrapped function raises
  reaches the caller as it is, with the state the function left.
\<close>

theorem wrapped_calls_swallow_backend_errors:
  assumes "is_wrapped c" and "mlflow_imported s"
    and "fst (use_mlflow w s) \<noteq> Inl ConnectionError"
    and "fst (use_mlflow w s) \<noteq> Inl MlflowException"
  shows "fst (call_api w c s) \<noteq> Inl ConnectionError
       \<and> fst (call_api w c s) \<noteq> Inl MlflowException
       \<and> (f s = (Inl e, s') \<and> mlflow_imported s' \<and> e \<noteq> ConnectionError \<and> e \<noteq> MlflowException
            \<longrightarrow> safe_mlflow f s = (Inl e, s'))
       \<and> (use_mlflow w s = (Inr True, s1) \<and> f s1 = (Inl e, s') \<and> mlflow_imported s'
            \<and> e \<noteq> ConnectionError \<and> e \<noteq> MlflowException
            \<longrightarrow> optional_mlflow f w s = (Inl e, s'))"
proof -
  have api: "fst (call_api w c s) \<noteq> Inl ConnectionError
           \<and> fst (call_api w c s) \<noteq> Inl MlflowException"
  proof (cases c)
    case Call_active_run_id
    with assms(2) show ?thesis
      by (simp add: active_run_id_def safe_mlflow_no_backend_error active_run_id_body_imported)
  next
    case (Call_save_text_to_mlflow x y)
    with assms(2) show ?thesis
      by (simp add: save_text_to_mlflow_def safe_mlflow_no_backend_error save_text_body_imported)
  next
    case Call_use_mlflow
    with assms(1) show ?thesis by simp
  next
    case Call_get_tracking_uri
    with assms(1) show ?thesis by simp
  next
    case (Call_format_key k)
    with assms(1) show ?thesis by simp
  qed (simp_all add: set_tag_def set_tags_def log_param_def log_params_def log_metric_def
         log_metrics_def log_artifact_def log_artifacts_def
         optional_mlflow_no_backend_error [OF assms(2) mlflow_call_imported assms(3) assms(4)])
  have "f s = (Inl e, s') \<and> mlflow_imported s' \<and> e \<noteq> ConnectionError \<and> e \<noteq> MlflowException
          \<longrightarrow> safe_mlflow f s = (Inl e, s')"
    by (simp add: safe_mlflow_def except_mlflow_def)
  moreover have "use_mlflow w s = (Inr True, s1) \<and> f s1 = (Inl e, s') \<and> mlflow_imported s'
          \<and> e \<noteq> ConnectionError \<and> e \<noteq> MlflowException
          \<longrightarrow> optional_mlflow f w s = (Inl e, s')"
    by (simp add: optional_mlflow_def except_mlflow_def)
  ultimately show ?thesis using api by blast
qed

text \<open>
  The backend refuses every connection: \<open>save_text_to_mlflow\<close> and \<open>log_param\<close>
  return \<open>None\<close>. Opening the file fails: the \<open>OSError\<close> comes out of the wrapper.
\<close>

theorem wrapped_calls_swallow_backend_errors_witness:
  "is_wrapped (Call_save_text_to_mlflow ''hello'' ''out.txt'')
   \<and> mlflow_imported state_fresh
   \<and> fst (use_mlflow world_conn_error state_fresh) = Inr True
   \<and> fst (call_api world_conn_error (Call_save_text_to_mlflow ''hello'' ''out.txt'') state_fresh)
       = Inr PyNone
   \<and> fst (call_api world_conn_error (Call_log_param ''lr'' (PyInt 1)) state_fresh) = Inr PyNone
   \<and> fst (save_text_to_mlflow_body world_open_fails ''hello'' ''sub/out.txt'' state_fresh)
       = Inl OSError
   \<and> fst (safe_mlflow (save_text_to_mlflow_body world_open_fails ''hello'' ''sub/out.txt'')
            state_fresh) = Inl OSError"
  using wrapped_calls_swallow_backend_errors
          [of "Call_save_text_to_mlflow ''hello'' ''out.txt''" state_fresh world_conn_error]
        wrapped_calls_swallow_backend_errors
          [of "Call_log_param ''lr'' (PyInt 1)" state_fresh world_open_fails
              "save_text_to_mlflow_body world_open_fails ''hello'' ''sub/out.txt''" OSError]
  by (simp add: fixture_defs model_defs)

end
